theory Spec2Isabelle
  imports Main
begin

section \<open>Values handled by the scripts\<close>

text \<open>
  The three scripts of the repository (the week-1 multi-instruction transfer, the
  token-mint script and the NFT script) are straight-line asynchronous entry points.
  Public keys, signatures, blockhashes and URIs are opaque to the scripts: they are only
  passed on to library calls and printed, so they are strings here.
\<close>

type_synonym pubkey = string
type_synonym signature = string
type_synonym blockhash = string
type_synonym uri = string
type_synonym nft = string

record keypair =
  publicKey :: pubkey
  secretKey :: string

text \<open>Whatever a rejected promise carries; the scripts never look inside it.\<close>

datatype error = Thrown string

text \<open>
  A seed buffer handed to \<open>PublicKey.findProgramAddressSync\<close>: either
  \<open>Buffer.from(text)\<close> or \<open>key.toBuffer()\<close>.
\<close>

datatype buffer = BufferFrom string | ToBuffer pubkey

subsection \<open>Instructions\<close>

record metadataAccounts =
  a_metadata :: pubkey
  a_mint :: pubkey
  a_mintAuthority :: pubkey
  a_payer :: pubkey
  a_updateAuthority :: pubkey

record dataV2 =
  d_creators :: "pubkey list option"
  d_name :: string
  d_symbol :: string
  d_uri :: uri
  d_sellerFeeBasisPoints :: nat
  d_collection :: "pubkey option"
  d_uses :: "nat option"

record createMetadataAccountArgsV3 =
  m_data :: dataV2
  m_collectionDetails :: "nat option"
  m_isMutable :: bool

text \<open>
  One constructor per instruction builder the scripts call, with the arguments in the
  order the scripts pass them:
  \<open>SystemProgram.createAccount {fromPubkey, newAccountPubkey, lamports, space, programId}\<close>,
  \<open>SystemProgram.transfer {lamports, fromPubkey, toPubkey, programId}\<close>,
  \<open>createInitializeMint2Instruction (mint, decimals, mintAuthority, freezeAuthority)\<close>,
  \<open>createCreateMetadataAccountV3Instruction (accounts, args)\<close>,
  \<open>createAssociatedTokenAccountInstruction (payer, associatedToken, owner, mint)\<close>,
  \<open>createMintToInstruction (mint, destination, authority, amount)\<close>.
\<close>

datatype instruction =
    CreateAccount pubkey pubkey nat nat pubkey
  | Transfer nat pubkey pubkey pubkey
  | InitializeMint2 pubkey nat pubkey pubkey
  | CreateMetadataAccountV3 metadataAccounts createMetadataAccountArgsV3
  | CreateAssociatedTokenAccount pubkey pubkey pubkey pubkey
  | MintTo pubkey pubkey pubkey nat

subsection \<open>Transactions\<close>

text \<open>
  \<open>new TransactionMessage({payerKey, recentBlockhash, instructions}).compileToV0Message()\<close>
  keeps these three components; the wire encoding is the library's business.
  A \<open>VersionedTransaction\<close> is the message with the public keys of the keypairs that
  signed it, in signing order.
\<close>

record transactionMessage =
  payerKey :: pubkey
  recentBlockhash :: blockhash
  instructions :: "instruction list"

record versionedTransaction =
  message :: transactionMessage
  signatures :: "pubkey list"

definition newVersionedTransaction :: "transactionMessage \<Rightarrow> versionedTransaction" where
  "newVersionedTransaction msg = \<lparr>message = msg, signatures = []\<rparr>"

definition sign :: "versionedTransaction \<Rightarrow> keypair list \<Rightarrow> versionedTransaction" where
  "sign tx signers = tx\<lparr>signatures := signatures tx @ map publicKey signers\<rparr>"

subsection \<open>Objects the scripts declare\<close>

record jsonMetadata =
  j_name :: string
  j_symbol :: string
  j_description :: string
  j_image :: string

record createNftInput =
  n_uri :: uri
  n_name :: string
  n_symbol :: string
  n_useNewMint :: keypair
  n_sellerFeeBasisPoints :: nat
  n_isMutable :: bool

record tokenConfig =
  decimals :: nat
  name :: string
  symbol :: string
  uri :: uri

section \<open>The outside world\<close>

text \<open>
  Constants and the address derivation of the external SDKs
  (\<open>@solana/web3.js\<close>, \<open>@solana/spl-token\<close>, \<open>mpl-token-metadata\<close>).
  They are parameters: nothing below depends on their values.
\<close>

record sdk =
  MINT_SIZE :: nat
  TOKEN_PROGRAM_ID :: pubkey
  ASSOCIATED_TOKEN_PROGRAM_ID :: pubkey
  METADATA_PROGRAM_ID :: pubkey
  SystemProgram_programId :: pubkey
  findProgramAddressSync :: "buffer list \<Rightarrow> pubkey \<Rightarrow> pubkey \<times> nat"

text \<open>
  What one run meets: the shared configuration of \<open>@/lib/vars\<close> (\<open>payer\<close>,
  \<open>testWallet\<close>, \<open>STATIC_PUBLICKEY\<close>; \<open>connection\<close> is the network fields
  below), the keypair \<open>Keypair.generate()\<close> returns, and the answer of every call that
  leaves the script. A call that can reject answers \<open>Inl\<close> with the error.

  \<open>extractSignatureFromFailedTransaction\<close> and \<open>savePublicKeyToFile\<close> belong to
  \<open>@/lib/helpers\<close>, which is not among the sources, so what they answer is a
  parameter of the run too. The first is the spec's "attempt to extract a transaction
  signature from the error": it yields a signature or nothing and does not throw. The
  second writes a public key to a file and may throw (\<open>Some\<close> error), as file output
  can. \<open>printConsoleSeparator\<close> and \<open>explorerURL\<close> of the same module only format
  console output.
\<close>

record world =
  payer :: keypair
  testWallet :: keypair
  STATIC_PUBLICKEY :: pubkey
  generate :: keypair
  getMinimumBalanceForRentExemption :: "nat \<Rightarrow> error + nat"
  getLatestBlockhash :: "error + blockhash"
  sendTransaction :: "versionedTransaction \<Rightarrow> error + signature"
  extractSignatureFromFailedTransaction :: "error \<Rightarrow> signature option"
  savePublicKeyToFile :: "string \<Rightarrow> pubkey \<Rightarrow> error option"
  uploadMetadata :: "jsonMetadata \<Rightarrow> error + uri"
  nftsCreate :: "createNftInput \<Rightarrow> error + (nft \<times> signature)"
  findByMint :: "pubkey \<Rightarrow> error + nft"

section \<open>Observable behaviour of a run\<close>

text \<open>Every awaited call of the scripts.\<close>

datatype request =
    GetMinimumBalanceForRentExemption nat
  | GetLatestBlockhash
  | SendTransaction versionedTransaction
  | ExtractSignatureFromFailedTransaction error
  | NftsUploadMetadata jsonMetadata
  | NftsCreate createNftInput
  | NftsFindByMint pubkey

text \<open>What is handed to \<open>console.log\<close> and \<open>console.error\<close>.\<close>

datatype printed =
    Text string
  | Base58 pubkey
  | ExplorerURL signature
  | TxObject versionedTransaction
  | NftObject nft

datatype event =
    ConsoleLog "printed list"
  | ConsoleError "printed list"
  | PrintConsoleSeparator "string option"
  | Started request
  | Fulfilled request
  | Rejected request error
  | SavePublicKeyToFile string pubkey

text \<open>
  An asynchronous computation: the events it produced, in order, and how it settled
  (\<open>Inl\<close>: rejected with the error, \<open>Inr\<close>: fulfilled with the value).
\<close>

type_synonym 'a script = "event list \<times> (error + 'a)"

definition resolve :: "'a \<Rightarrow> 'a script" where
  "resolve x = ([], Inr x)"

definition reject :: "error \<Rightarrow> 'a script" where
  "reject e = ([], Inl e)"

definition emit :: "event \<Rightarrow> unit script" where
  "emit ev = ([ev], Inr ())"

text \<open>
  \<open>await call\<close>: the request starts, the script is suspended until it settles, and the
  script goes on with the value or throws the error.
\<close>

definition await :: "request \<Rightarrow> error + 'a \<Rightarrow> 'a script" where
  "await r res =
     ([Started r, (case res of Inl e \<Rightarrow> Rejected r e | Inr _ \<Rightarrow> Fulfilled r)], res)"

text \<open>Statement sequencing: a throw skips the rest.\<close>

definition andThen :: "'a script \<Rightarrow> ('a \<Rightarrow> 'b script) \<Rightarrow> 'b script" where
  "andThen m f =
     (case m of
        (evs, Inl e) \<Rightarrow> (evs, Inl e)
      | (evs, Inr x) \<Rightarrow> (case f x of (evs', res) \<Rightarrow> (evs @ evs', res)))"

text \<open>\<open>try { m } catch (err) { h err }\<close>.\<close>

definition tryCatch :: "'a script \<Rightarrow> (error \<Rightarrow> 'a script) \<Rightarrow> 'a script" where
  "tryCatch m h =
     (case m of
        (evs, Inl e) \<Rightarrow> (case h e of (evs', res) \<Rightarrow> (evs @ evs', res))
      | (evs, Inr x) \<Rightarrow> (evs, Inr x))"

abbreviation trace :: "'a script \<Rightarrow> event list" where
  "trace r \<equiv> fst r"

abbreviation outcome :: "'a script \<Rightarrow> error + 'a" where
  "outcome r \<equiv> snd r"

section \<open>The week-1 script: \<open>week-1/assignment/scripts/index.ts\<close>\<close>

definition createAccountIx :: "sdk \<Rightarrow> world \<Rightarrow> instruction" where
  "createAccountIx lib w =
     CreateAccount (publicKey (payer w)) (publicKey (generate w)) 200000000 0
       (SystemProgram_programId lib)"

definition transferToStaticWalletIx :: "sdk \<Rightarrow> world \<Rightarrow> instruction" where
  "transferToStaticWalletIx lib w =
     Transfer 100000000 (publicKey (generate w)) (STATIC_PUBLICKEY w)
       (SystemProgram_programId lib)"

definition closeAccountIx :: "sdk \<Rightarrow> world \<Rightarrow> instruction" where
  "closeAccountIx lib w =
     Transfer 100000000 (publicKey (generate w)) (publicKey (payer w))
       (SystemProgram_programId lib)"

definition indexMessage :: "sdk \<Rightarrow> world \<Rightarrow> blockhash \<Rightarrow> transactionMessage" where
  "indexMessage lib w bh =
     \<lparr>payerKey = publicKey (payer w),
      recentBlockhash = bh,
      instructions = [createAccountIx lib w, transferToStaticWalletIx lib w, closeAccountIx lib w]\<rparr>"

definition indexTx :: "sdk \<Rightarrow> world \<Rightarrow> blockhash \<Rightarrow> versionedTransaction" where
  "indexTx lib w bh = sign (newVersionedTransaction (indexMessage lib w bh)) [payer w, generate w]"

definition indexScript :: "sdk \<Rightarrow> world \<Rightarrow> unit script" where
  "indexScript lib w =
     andThen (emit (ConsoleLog [Text ''Payer address:'', Base58 (publicKey (payer w))])) (\<lambda>_.
     andThen (emit (ConsoleLog [Text ''Test wallet address:'', Base58 (publicKey (testWallet w))])) (\<lambda>_.
     andThen (await GetLatestBlockhash (getLatestBlockhash w)) (\<lambda>bh.
     andThen (await (SendTransaction (indexTx lib w bh)) (sendTransaction w (indexTx lib w bh))) (\<lambda>sig.
     andThen (emit (PrintConsoleSeparator None)) (\<lambda>_.
     andThen (emit (ConsoleLog [Text ''Transaction completed.''])) (\<lambda>_.
     emit (ConsoleLog [ExplorerURL sig])))))))"

section \<open>The token-mint script\<close>

definition theTokenConfig :: tokenConfig where
  "theTokenConfig =
     \<lparr>decimals = 6,
      name = ''Pepe Token'',
      symbol = ''PP'',
      uri = ''https://raw.githubusercontent.com/hkhangus/solana-bootcamp-autumn-2024/main/week-2/assignment/assets/pepe-token.json''\<rparr>"

definition createMintAccountInstruction :: "sdk \<Rightarrow> world \<Rightarrow> nat \<Rightarrow> instruction" where
  "createMintAccountInstruction lib w rent =
     CreateAccount (publicKey (payer w)) (publicKey (generate w)) rent (MINT_SIZE lib)
       (TOKEN_PROGRAM_ID lib)"

definition initializeMintInstruction :: "world \<Rightarrow> instruction" where
  "initializeMintInstruction w =
     InitializeMint2 (publicKey (generate w)) (decimals theTokenConfig)
       (publicKey (payer w)) (publicKey (payer w))"

definition metadataAccount :: "sdk \<Rightarrow> world \<Rightarrow> pubkey" where
  "metadataAccount lib w =
     fst (findProgramAddressSync lib
            [BufferFrom ''metadata'', ToBuffer (METADATA_PROGRAM_ID lib),
             ToBuffer (publicKey (generate w))]
            (METADATA_PROGRAM_ID lib))"

definition createMetadataInstruction :: "sdk \<Rightarrow> world \<Rightarrow> instruction" where
  "createMetadataInstruction lib w =
     CreateMetadataAccountV3
       \<lparr>a_metadata = metadataAccount lib w,
        a_mint = publicKey (generate w),
        a_mintAuthority = publicKey (payer w),
        a_payer = publicKey (payer w),
        a_updateAuthority = publicKey (payer w)\<rparr>
       \<lparr>m_data =
          \<lparr>d_creators = None,
           d_name = name theTokenConfig,
           d_symbol = symbol theTokenConfig,
           d_uri = uri theTokenConfig,
           d_sellerFeeBasisPoints = 0,
           d_collection = None,
           d_uses = None\<rparr>,
        m_collectionDetails = None,
        m_isMutable = True\<rparr>"

definition associatedToken :: "sdk \<Rightarrow> world \<Rightarrow> pubkey \<times> nat" where
  "associatedToken lib w =
     findProgramAddressSync lib
       [ToBuffer (publicKey (payer w)), ToBuffer (TOKEN_PROGRAM_ID lib),
        ToBuffer (publicKey (generate w))]
       (ASSOCIATED_TOKEN_PROGRAM_ID lib)"

definition createAssociatedTokenAccountSelfInstruction :: "sdk \<Rightarrow> world \<Rightarrow> instruction" where
  "createAssociatedTokenAccountSelfInstruction lib w =
     CreateAssociatedTokenAccount (publicKey (payer w)) (fst (associatedToken lib w))
       (publicKey (payer w)) (publicKey (generate w))"

definition mintTokenToSelfInstruction :: "sdk \<Rightarrow> world \<Rightarrow> instruction" where
  "mintTokenToSelfInstruction lib w =
     MintTo (publicKey (generate w)) (fst (associatedToken lib w)) (publicKey (payer w)) 100000000"

definition associatedToken2 :: "sdk \<Rightarrow> world \<Rightarrow> pubkey \<times> nat" where
  "associatedToken2 lib w =
     findProgramAddressSync lib
       [ToBuffer (STATIC_PUBLICKEY w), ToBuffer (TOKEN_PROGRAM_ID lib),
        ToBuffer (publicKey (generate w))]
       (ASSOCIATED_TOKEN_PROGRAM_ID lib)"

definition createAssociatedTokenAccountStaticInstruction :: "sdk \<Rightarrow> world \<Rightarrow> instruction" where
  "createAssociatedTokenAccountStaticInstruction lib w =
     CreateAssociatedTokenAccount (publicKey (payer w)) (fst (associatedToken2 lib w))
       (STATIC_PUBLICKEY w) (publicKey (generate w))"

definition mintTokenToStaticAddressInstruction :: "sdk \<Rightarrow> world \<Rightarrow> instruction" where
  "mintTokenToStaticAddressInstruction lib w =
     MintTo (publicKey (generate w)) (fst (associatedToken2 lib w)) (publicKey (payer w)) 10000000"

definition tokenMintInstructions :: "sdk \<Rightarrow> world \<Rightarrow> nat \<Rightarrow> instruction list" where
  "tokenMintInstructions lib w rent =
     [createMintAccountInstruction lib w rent,
      initializeMintInstruction w,
      createMetadataInstruction lib w,
      createAssociatedTokenAccountSelfInstruction lib w,
      mintTokenToSelfInstruction lib w,
      createAssociatedTokenAccountStaticInstruction lib w,
      mintTokenToStaticAddressInstruction lib w]"

text \<open>
  Modelled from the spec: \<open>buildTransaction\<close> of \<open>@/lib/helpers\<close> is not among the
  sources. The spec has a script assemble its instructions "into a single transaction
  message", attach "a recent blockhash" and sign "with the required keypairs", and counts
  "fetching a recent blockhash" among the network requests; so the helper awaits the
  latest blockhash, builds the message for the given payer and instructions, and signs
  with the given signers.
\<close>

definition buildTransaction ::
  "world \<Rightarrow> pubkey \<Rightarrow> keypair list \<Rightarrow> instruction list \<Rightarrow> versionedTransaction script" where
  "buildTransaction w payerK signers ixs =
     andThen (await GetLatestBlockhash (getLatestBlockhash w)) (\<lambda>bh.
     resolve (sign (newVersionedTransaction
                \<lparr>payerKey = payerK, recentBlockhash = bh, instructions = ixs\<rparr>) signers))"

definition tokenMintTx :: "sdk \<Rightarrow> world \<Rightarrow> nat \<Rightarrow> blockhash \<Rightarrow> versionedTransaction" where
  "tokenMintTx lib w rent bh =
     sign (newVersionedTransaction
        \<lparr>payerKey = publicKey (payer w), recentBlockhash = bh,
         instructions = tokenMintInstructions lib w rent\<rparr>) [payer w, generate w]"

text \<open>The synchronous call \<open>savePublicKeyToFile(name, key)\<close>.\<close>

definition callSavePublicKeyToFile :: "world \<Rightarrow> string \<Rightarrow> pubkey \<Rightarrow> unit script" where
  "callSavePublicKeyToFile w nm key =
     ([SavePublicKeyToFile nm key],
      (case savePublicKeyToFile w nm key of None \<Rightarrow> Inr () | Some e \<Rightarrow> Inl e))"

text \<open>
  The \<open>catch (err)\<close> block. \<open>if (failedSig)\<close> is JavaScript truthiness: neither an
  absent signature nor the empty string is printed.
\<close>

definition onSendFailure :: "world \<Rightarrow> versionedTransaction \<Rightarrow> error \<Rightarrow> unit script" where
  "onSendFailure w tx err =
     andThen (emit (ConsoleError [Text ''Failed to send transaction:''])) (\<lambda>_.
     andThen (emit (ConsoleLog [TxObject tx])) (\<lambda>_.
     andThen (await (ExtractSignatureFromFailedTransaction err)
                (Inr (extractSignatureFromFailedTransaction w err))) (\<lambda>failedSig.
     andThen (case failedSig of
                None \<Rightarrow> resolve ()
              | Some s \<Rightarrow>
                  if s = [] then resolve ()
                  else emit (ConsoleLog [Text ''Failed signature:'', ExplorerURL s])) (\<lambda>_.
     reject err))))"

definition tokenMintScript :: "sdk \<Rightarrow> world \<Rightarrow> unit script" where
  "tokenMintScript lib w =
     andThen (emit (ConsoleLog [Text ''Payer address:'', Base58 (publicKey (payer w))])) (\<lambda>_.
     andThen (emit (ConsoleLog [Text ''Test wallet address:'', Base58 (publicKey (testWallet w))])) (\<lambda>_.
     andThen (emit (ConsoleLog [Text ''Mint address:'', Base58 (publicKey (generate w))])) (\<lambda>_.
     andThen (await (GetMinimumBalanceForRentExemption (MINT_SIZE lib))
                (getMinimumBalanceForRentExemption w (MINT_SIZE lib))) (\<lambda>rent.
     andThen (emit (ConsoleLog [Text ''Metadata address:'', Base58 (metadataAccount lib w)])) (\<lambda>_.
     andThen (buildTransaction w (publicKey (payer w)) [payer w, generate w]
                (tokenMintInstructions lib w rent)) (\<lambda>tx.
     andThen (emit (PrintConsoleSeparator None)) (\<lambda>_.
     tryCatch
       (andThen (await (SendTransaction tx) (sendTransaction w tx)) (\<lambda>sig.
        andThen (emit (ConsoleLog [Text ''Transaction completed.''])) (\<lambda>_.
        andThen (emit (ConsoleLog [ExplorerURL sig])) (\<lambda>_.
        callSavePublicKeyToFile w ''tokenMint'' (publicKey (generate w))))))
       (onSendFailure w tx))))))))"

section \<open>The NFT script: \<open>week-2/assignment/scripts/createNFTs.ts\<close>\<close>

definition metadata :: jsonMetadata where
  "metadata =
     \<lparr>j_name = ''Pepe Token'',
      j_symbol = ''PP'',
      j_description = ''Pepe Token is a token for the people, by the people, and of the people.'',
      j_image = ''https://github.com/hkhangus/solana-bootcamp-autumn-2024/blob/main/week-2/assignment/assets/pepe.jpg?raw=true''\<rparr>"

definition createInput :: "world \<Rightarrow> uri \<Rightarrow> createNftInput" where
  "createInput w u =
     \<lparr>n_uri = u,
      n_name = j_name metadata,
      n_symbol = j_symbol metadata,
      n_useNewMint = generate w,
      n_sellerFeeBasisPoints = 1000,
      n_isMutable = True\<rparr>"

text \<open>
  \<open>Metaplex.make(connection).use(keypairIdentity(payer)).use(bundlrStorage(...))\<close> only
  configures the SDK instance; the three awaited calls on it are what the run does.
\<close>

definition createNFTsScript :: "world \<Rightarrow> unit script" where
  "createNFTsScript w =
     andThen (emit (ConsoleLog [Text ''Payer address:'', Base58 (publicKey (payer w))])) (\<lambda>_.
     andThen (emit (ConsoleLog [Text ''Uploading metadata...''])) (\<lambda>_.
     andThen (await (NftsUploadMetadata metadata) (uploadMetadata w metadata)) (\<lambda>u.
     andThen (emit (ConsoleLog [Text ''Metadata uploaded:'', Text u])) (\<lambda>_.
     andThen (emit (PrintConsoleSeparator (Some ''NFT details''))) (\<lambda>_.
     andThen (emit (ConsoleLog [Text ''Creating NFT using Metaplex...''])) (\<lambda>_.
     andThen (await (NftsCreate (createInput w u)) (nftsCreate w (createInput w u))) (\<lambda>created.
     andThen (emit (ConsoleLog [NftObject (fst created)])) (\<lambda>_.
     andThen (emit (PrintConsoleSeparator (Some ''NFT created:''))) (\<lambda>_.
     andThen (emit (ConsoleLog [ExplorerURL (snd created)])) (\<lambda>_.
     andThen (emit (PrintConsoleSeparator (Some ''Find by mint:''))) (\<lambda>_.
     andThen (await (NftsFindByMint (publicKey (generate w)))
                (findByMint w (publicKey (generate w)))) (\<lambda>mintInfo.
     emit (ConsoleLog [NftObject mintInfo])))))))))))))"

section \<open>Reading a trace\<close>

text \<open>The submission step of a script: sending the transaction, or the SDK's NFT creation.\<close>

fun isSubmission :: "event \<Rightarrow> bool" where
  "isSubmission (Started (SendTransaction tx)) = True"
| "isSubmission (Started (NftsCreate i)) = True"
| "isSubmission ev = False"

fun isSendFulfilled :: "event \<Rightarrow> bool" where
  "isSendFulfilled (Fulfilled (SendTransaction tx)) = True"
| "isSendFulfilled ev = False"

fun isExtraction :: "event \<Rightarrow> bool" where
  "isExtraction (Started (ExtractSignatureFromFailedTransaction e)) = True"
| "isExtraction ev = False"

fun isFileWrite :: "event \<Rightarrow> bool" where
  "isFileWrite (SavePublicKeyToFile nm key) = True"
| "isFileWrite ev = False"

text \<open>
  \<open>onlyAfter opened guarded evs\<close>: no \<open>guarded\<close> event happens in \<open>evs\<close> before the
  first \<open>opened\<close> event.
\<close>

fun onlyAfter :: "(event \<Rightarrow> bool) \<Rightarrow> (event \<Rightarrow> bool) \<Rightarrow> event list \<Rightarrow> bool" where
  "onlyAfter opened guarded [] = True"
| "onlyAfter opened guarded (ev # evs) =
     (opened ev \<or> (\<not> guarded ev \<and> onlyAfter opened guarded evs))"

text \<open>
  \<open>oneAtATime cur evs\<close>, with \<open>cur\<close> the request in flight: a request starts only when
  none is in flight, the request that settles is the one in flight, the script does
  nothing else while it waits, and nothing is in flight at the end.
\<close>

fun oneAtATime :: "request option \<Rightarrow> event list \<Rightarrow> bool" where
  "oneAtATime cur [] = (cur = None)"
| "oneAtATime cur (Started r # evs) = (cur = None \<and> oneAtATime (Some r) evs)"
| "oneAtATime cur (Fulfilled r # evs) = (cur = Some r \<and> oneAtATime None evs)"
| "oneAtATime cur (Rejected r e # evs) = (cur = Some r \<and> oneAtATime None evs)"
| "oneAtATime cur (ev # evs) = (cur = None \<and> oneAtATime cur evs)"

text \<open>What the \<open>catch\<close> block prints after the extraction attempt.\<close>

definition printedFailedSig :: "world \<Rightarrow> error \<Rightarrow> event list" where
  "printedFailedSig w e =
     (case extractSignatureFromFailedTransaction w e of
        None \<Rightarrow> []
      | Some s \<Rightarrow> if s = [] then [] else [ConsoleLog [Text ''Failed signature:'', ExplorerURL s]])"

text \<open>A trace from the submission step on.\<close>

definition fromSubmission :: "event list \<Rightarrow> event list" where
  "fromSubmission evs = dropWhile (\<lambda>ev. \<not> isSubmission ev) evs"

subsection \<open>Reading instructions\<close>

text \<open>The builder call an instruction came from.\<close>

fun builder :: "instruction \<Rightarrow> string" where
  "builder (CreateAccount fromPubkey newAccountPubkey lamports space programId) =
     ''SystemProgram.createAccount''"
| "builder (Transfer lamports fromPubkey toPubkey programId) = ''SystemProgram.transfer''"
| "builder (InitializeMint2 mint dec mintAuthority freezeAuthority) =
     ''createInitializeMint2Instruction''"
| "builder (CreateMetadataAccountV3 accounts args) = ''createCreateMetadataAccountV3Instruction''"
| "builder (CreateAssociatedTokenAccount payerK ata owner mint) =
     ''createAssociatedTokenAccountInstruction''"
| "builder (MintTo mint destination authority amount) = ''createMintToInstruction''"

fun mintDecimals :: "instruction \<Rightarrow> nat option" where
  "mintDecimals (InitializeMint2 mint dec mintAuthority freezeAuthority) = Some dec"
| "mintDecimals ix = None"

fun sellerFee :: "instruction \<Rightarrow> nat option" where
  "sellerFee (CreateMetadataAccountV3 accounts args) = Some (d_sellerFeeBasisPoints (m_data args))"
| "sellerFee ix = None"

fun metadataAddress :: "instruction \<Rightarrow> pubkey option" where
  "metadataAddress (CreateMetadataAccountV3 accounts args) = Some (a_metadata accounts)"
| "metadataAddress ix = None"

text \<open>
  The lamports a System Program instruction names, and the account they leave
  (\<open>debited\<close>) and reach (\<open>credited\<close>): \<open>createAccount\<close> funds the new account from
  \<open>fromPubkey\<close>, \<open>transfer\<close> moves them from \<open>fromPubkey\<close> to \<open>toPubkey\<close>.
\<close>

fun lamportsOf :: "instruction \<Rightarrow> nat" where
  "lamportsOf (CreateAccount fromPubkey newAccountPubkey lamports space programId) = lamports"
| "lamportsOf (Transfer lamports fromPubkey toPubkey programId) = lamports"
| "lamportsOf ix = 0"

fun credited :: "pubkey \<Rightarrow> instruction \<Rightarrow> nat" where
  "credited k (CreateAccount fromPubkey newAccountPubkey lamports space programId) =
     (if newAccountPubkey = k then lamports else 0)"
| "credited k (Transfer lamports fromPubkey toPubkey programId) =
     (if toPubkey = k then lamports else 0)"
| "credited k ix = 0"

fun debited :: "pubkey \<Rightarrow> instruction \<Rightarrow> nat" where
  "debited k (CreateAccount fromPubkey newAccountPubkey lamports space programId) =
     (if fromPubkey = k then lamports else 0)"
| "debited k (Transfer lamports fromPubkey toPubkey programId) =
     (if fromPubkey = k then lamports else 0)"
| "debited k ix = 0"

definition netLamports :: "pubkey \<Rightarrow> instruction list \<Rightarrow> int" where
  "netLamports k ixs =
     int (sum_list (map (credited k) ixs)) - int (sum_list (map (debited k) ixs))"

section \<open>Example runs\<close>

text \<open>
  A concrete SDK (the derivation concatenates its seeds and the program id), a world in
  which every call succeeds, one in which the submissions are rejected, and one that
  differs from the first in everything but the generated keypair.
\<close>

definition exampleSdk :: sdk where
  "exampleSdk =
     \<lparr>MINT_SIZE = 82,
      TOKEN_PROGRAM_ID = ''TokenkegQfeZyiNwAJbNbGKPFXCWuBvf9Ss623VQ5DA'',
      ASSOCIATED_TOKEN_PROGRAM_ID = ''ATokenGPvbdGVxr1b2hvZbsiqW5xWH25efTNsLJA8knL'',
      METADATA_PROGRAM_ID = ''metaqbxxUerdq28cj1RbAWkYQm3ybzjb6a8bt518x1s'',
      SystemProgram_programId = ''11111111111111111111111111111111'',
      findProgramAddressSync =
        (\<lambda>seeds programId.
           (concat (map (\<lambda>b. case b of BufferFrom s \<Rightarrow> s | ToBuffer k \<Rightarrow> k) seeds) @ programId,
            255))\<rparr>"

definition calmWorld :: world where
  "calmWorld =
     \<lparr>payer = \<lparr>publicKey = ''PAYER'', secretKey = ''payer-secret''\<rparr>,
      testWallet = \<lparr>publicKey = ''TEST'', secretKey = ''test-secret''\<rparr>,
      STATIC_PUBLICKEY = ''STATIC'',
      generate = \<lparr>publicKey = ''FRESH'', secretKey = ''fresh-secret''\<rparr>,
      getMinimumBalanceForRentExemption = (\<lambda>space. Inr 1461600),
      getLatestBlockhash = Inr ''BLOCKHASH'',
      sendTransaction = (\<lambda>tx. Inr ''SIGNATURE''),
      extractSignatureFromFailedTransaction = (\<lambda>e. None),
      savePublicKeyToFile = (\<lambda>nm key. None),
      uploadMetadata = (\<lambda>m. Inr ''https://arweave.net/pepe''),
      nftsCreate = (\<lambda>i. Inr (''NFT'', ''SIGNATURE'')),
      findByMint = (\<lambda>key. Inr ''NFT'')\<rparr>"

definition stormWorld :: world where
  "stormWorld =
     calmWorld
       \<lparr>sendTransaction := (\<lambda>tx. Inl (Thrown ''Transaction FAILEDSIG failed'')),
        extractSignatureFromFailedTransaction := (\<lambda>e. Some ''FAILEDSIG''),
        nftsCreate := (\<lambda>i. Inl (Thrown ''create failed''))\<rparr>"

definition otherWorld :: world where
  "otherWorld =
     calmWorld
       \<lparr>payer := \<lparr>publicKey = ''OTHER'', secretKey = ''other-secret''\<rparr>,
        STATIC_PUBLICKEY := ''ELSEWHERE'',
        getMinimumBalanceForRentExemption := (\<lambda>space. Inr 2000000),
        getLatestBlockhash := Inr ''LATER''\<rparr>"

section \<open>The runs of each script\<close>

lemma andThen_Inr: "andThen (evs, Inr x) f = (case f x of (evs', res) \<Rightarrow> (evs @ evs', res))"
  by (simp add: andThen_def)

lemma andThen_Inl: "andThen (evs, Inl e) f = (evs, Inl e)"
  by (simp add: andThen_def)

lemma await_Inl: "await r (Inl e) = ([Started r, Rejected r e], Inl e)"
  by (simp add: await_def)

lemma await_Inr: "await r (Inr x) = ([Started r, Fulfilled r], Inr x)"
  by (simp add: await_def)

lemma tryCatch_Inr: "tryCatch (evs, Inr x) h = (evs, Inr x)"
  by (simp add: tryCatch_def)

lemma tryCatch_Inl: "tryCatch (evs, Inl e) h = (case h e of (evs', res) \<Rightarrow> (evs @ evs', res))"
  by (simp add: tryCatch_def)

lemmas run_simps = andThen_Inr andThen_Inl await_Inl await_Inr tryCatch_Inr tryCatch_Inl
  emit_def resolve_def reject_def

lemma onSendFailure_run:
  "onSendFailure w tx e =
     ([ConsoleError [Text ''Failed to send transaction:''],
       ConsoleLog [TxObject tx],
       Started (ExtractSignatureFromFailedTransaction e),
       Fulfilled (ExtractSignatureFromFailedTransaction e)] @ printedFailedSig w e, Inl e)"
  by (simp add: onSendFailure_def run_simps printedFailedSig_def split: option.split)

lemma buildTransaction_run:
  "buildTransaction w (publicKey (payer w)) [payer w, generate w] (tokenMintInstructions lib w rent) =
     (case getLatestBlockhash w of
        Inl e \<Rightarrow> ([Started GetLatestBlockhash, Rejected GetLatestBlockhash e], Inl e)
      | Inr bh \<Rightarrow> ([Started GetLatestBlockhash, Fulfilled GetLatestBlockhash],
                   Inr (tokenMintTx lib w rent bh)))"
  by (cases "getLatestBlockhash w") (simp_all add: buildTransaction_def run_simps tokenMintTx_def)

text \<open>The three ways the week-1 script can run.\<close>

lemma indexScript_cases:
  obtains
    (blockhash_rejected) e where
      "getLatestBlockhash w = Inl e"
      "indexScript lib w =
         ([ConsoleLog [Text ''Payer address:'', Base58 (publicKey (payer w))],
           ConsoleLog [Text ''Test wallet address:'', Base58 (publicKey (testWallet w))],
           Started GetLatestBlockhash, Rejected GetLatestBlockhash e], Inl e)"
  | (send_rejected) bh e where
      "getLatestBlockhash w = Inr bh"
      "sendTransaction w (indexTx lib w bh) = Inl e"
      "indexScript lib w =
         ([ConsoleLog [Text ''Payer address:'', Base58 (publicKey (payer w))],
           ConsoleLog [Text ''Test wallet address:'', Base58 (publicKey (testWallet w))],
           Started GetLatestBlockhash, Fulfilled GetLatestBlockhash,
           Started (SendTransaction (indexTx lib w bh)),
           Rejected (SendTransaction (indexTx lib w bh)) e], Inl e)"
  | (completed) bh sig where
      "getLatestBlockhash w = Inr bh"
      "sendTransaction w (indexTx lib w bh) = Inr sig"
      "indexScript lib w =
         ([ConsoleLog [Text ''Payer address:'', Base58 (publicKey (payer w))],
           ConsoleLog [Text ''Test wallet address:'', Base58 (publicKey (testWallet w))],
           Started GetLatestBlockhash, Fulfilled GetLatestBlockhash,
           Started (SendTransaction (indexTx lib w bh)),
           Fulfilled (SendTransaction (indexTx lib w bh)),
           PrintConsoleSeparator None,
           ConsoleLog [Text ''Transaction completed.''],
           ConsoleLog [ExplorerURL sig]], Inr ())"
proof (cases "getLatestBlockhash w")
  case (Inl e)
  then show thesis
    by (intro blockhash_rejected [of e]) (simp_all add: indexScript_def run_simps)
next
  case bh: (Inr bh)
  show thesis
  proof (cases "sendTransaction w (indexTx lib w bh)")
    case (Inl e)
    with bh show thesis
      by (intro send_rejected [of bh e]) (simp_all add: indexScript_def run_simps)
  next
    case (Inr sig)
    with bh show thesis
      by (intro completed [of bh sig]) (simp_all add: indexScript_def run_simps)
  qed
qed

text \<open>The five ways the token-mint script can run.\<close>

lemma tokenMintScript_cases:
  obtains
    (rent_rejected) e where
      "getMinimumBalanceForRentExemption w (MINT_SIZE lib) = Inl e"
      "tokenMintScript lib w =
         ([ConsoleLog [Text ''Payer address:'', Base58 (publicKey (payer w))],
           ConsoleLog [Text ''Test wallet address:'', Base58 (publicKey (testWallet w))],
           ConsoleLog [Text ''Mint address:'', Base58 (publicKey (generate w))],
           Started (GetMinimumBalanceForRentExemption (MINT_SIZE lib)),
           Rejected (GetMinimumBalanceForRentExemption (MINT_SIZE lib)) e], Inl e)"
  | (blockhash_rejected) rent e where
      "getMinimumBalanceForRentExemption w (MINT_SIZE lib) = Inr rent"
      "getLatestBlockhash w = Inl e"
      "tokenMintScript lib w =
         ([ConsoleLog [Text ''Payer address:'', Base58 (publicKey (payer w))],
           ConsoleLog [Text ''Test wallet address:'', Base58 (publicKey (testWallet w))],
           ConsoleLog [Text ''Mint address:'', Base58 (publicKey (generate w))],
           Started (GetMinimumBalanceForRentExemption (MINT_SIZE lib)),
           Fulfilled (GetMinimumBalanceForRentExemption (MINT_SIZE lib)),
           ConsoleLog [Text ''Metadata address:'', Base58 (metadataAccount lib w)],
           Started GetLatestBlockhash, Rejected GetLatestBlockhash e], Inl e)"
  | (send_rejected) rent bh e where
      "getMinimumBalanceForRentExemption w (MINT_SIZE lib) = Inr rent"
      "getLatestBlockhash w = Inr bh"
      "sendTransaction w (tokenMintTx lib w rent bh) = Inl e"
      "tokenMintScript lib w =
         ([ConsoleLog [Text ''Payer address:'', Base58 (publicKey (payer w))],
           ConsoleLog [Text ''Test wallet address:'', Base58 (publicKey (testWallet w))],
           ConsoleLog [Text ''Mint address:'', Base58 (publicKey (generate w))],
           Started (GetMinimumBalanceForRentExemption (MINT_SIZE lib)),
           Fulfilled (GetMinimumBalanceForRentExemption (MINT_SIZE lib)),
           ConsoleLog [Text ''Metadata address:'', Base58 (metadataAccount lib w)],
           Started GetLatestBlockhash, Fulfilled GetLatestBlockhash,
           PrintConsoleSeparator None,
           Started (SendTransaction (tokenMintTx lib w rent bh)),
           Rejected (SendTransaction (tokenMintTx lib w rent bh)) e,
           ConsoleError [Text ''Failed to send transaction:''],
           ConsoleLog [TxObject (tokenMintTx lib w rent bh)],
           Started (ExtractSignatureFromFailedTransaction e),
           Fulfilled (ExtractSignatureFromFailedTransaction e)] @ printedFailedSig w e, Inl e)"
  | (saved) rent bh sig where
      "getMinimumBalanceForRentExemption w (MINT_SIZE lib) = Inr rent"
      "getLatestBlockhash w = Inr bh"
      "sendTransaction w (tokenMintTx lib w rent bh) = Inr sig"
      "savePublicKeyToFile w ''tokenMint'' (publicKey (generate w)) = None"
      "tokenMintScript lib w =
         ([ConsoleLog [Text ''Payer address:'', Base58 (publicKey (payer w))],
           ConsoleLog [Text ''Test wallet address:'', Base58 (publicKey (testWallet w))],
           ConsoleLog [Text ''Mint address:'', Base58 (publicKey (generate w))],
           Started (GetMinimumBalanceForRentExemption (MINT_SIZE lib)),
           Fulfilled (GetMinimumBalanceForRentExemption (MINT_SIZE lib)),
           ConsoleLog [Text ''Metadata address:'', Base58 (metadataAccount lib w)],
           Started GetLatestBlockhash, Fulfilled GetLatestBlockhash,
           PrintConsoleSeparator None,
           Started (SendTransaction (tokenMintTx lib w rent bh)),
           Fulfilled (SendTransaction (tokenMintTx lib w rent bh)),
           ConsoleLog [Text ''Transaction completed.''],
           ConsoleLog [ExplorerURL sig],
           SavePublicKeyToFile ''tokenMint'' (publicKey (generate w))], Inr ())"
  | (save_threw) rent bh sig e where
      "getMinimumBalanceForRentExemption w (MINT_SIZE lib) = Inr rent"
      "getLatestBlockhash w = Inr bh"
      "sendTransaction w (tokenMintTx lib w rent bh) = Inr sig"
      "savePublicKeyToFile w ''tokenMint'' (publicKey (generate w)) = Some e"
      "tokenMintScript lib w =
         ([ConsoleLog [Text ''Payer address:'', Base58 (publicKey (payer w))],
           ConsoleLog [Text ''Test wallet address:'', Base58 (publicKey (testWallet w))],
           ConsoleLog [Text ''Mint address:'', Base58 (publicKey (generate w))],
           Started (GetMinimumBalanceForRentExemption (MINT_SIZE lib)),
           Fulfilled (GetMinimumBalanceForRentExemption (MINT_SIZE lib)),
           ConsoleLog [Text ''Metadata address:'', Base58 (metadataAccount lib w)],
           Started GetLatestBlockhash, Fulfilled GetLatestBlockhash,
           PrintConsoleSeparator None,
           Started (SendTransaction (tokenMintTx lib w rent bh)),
           Fulfilled (SendTransaction (tokenMintTx lib w rent bh)),
           ConsoleLog [Text ''Transaction completed.''],
           ConsoleLog [ExplorerURL sig],
           SavePublicKeyToFile ''tokenMint'' (publicKey (generate w)),
           ConsoleError [Text ''Failed to send transaction:''],
           ConsoleLog [TxObject (tokenMintTx lib w rent bh)],
           Started (ExtractSignatureFromFailedTransaction e),
           Fulfilled (ExtractSignatureFromFailedTransaction e)] @ printedFailedSig w e, Inl e)"
proof (cases "getMinimumBalanceForRentExemption w (MINT_SIZE lib)")
  case (Inl e)
  then show thesis
    by (intro rent_rejected [of e]) (simp_all add: tokenMintScript_def run_simps)
next
  case rent: (Inr rent)
  show thesis
  proof (cases "getLatestBlockhash w")
    case (Inl e)
    with rent show thesis
      by (intro blockhash_rejected [of rent e])
         (simp_all add: tokenMintScript_def buildTransaction_run run_simps)
  next
    case bh: (Inr bh)
    show thesis
    proof (cases "sendTransaction w (tokenMintTx lib w rent bh)")
      case (Inl e)
      with rent bh show thesis
        by (intro send_rejected [of rent bh e])
           (simp_all add: tokenMintScript_def buildTransaction_run onSendFailure_run run_simps)
    next
      case sent: (Inr sig)
      show thesis
      proof (cases "savePublicKeyToFile w ''tokenMint'' (publicKey (generate w))")
        case None
        with rent bh sent show thesis
          by (intro saved [of rent bh sig])
             (simp_all add: tokenMintScript_def buildTransaction_run
                callSavePublicKeyToFile_def run_simps)
      next
        case (Some e)
        with rent bh sent show thesis
          by (intro save_threw [of rent bh sig e])
             (simp_all add: tokenMintScript_def buildTransaction_run
                callSavePublicKeyToFile_def onSendFailure_run run_simps)
      qed
    qed
  qed
qed

text \<open>The four ways the NFT script can run.\<close>

lemma createNFTsScript_cases:
  obtains
    (upload_rejected) e where
      "uploadMetadata w metadata = Inl e"
      "createNFTsScript w =
         ([ConsoleLog [Text ''Payer address:'', Base58 (publicKey (payer w))],
           ConsoleLog [Text ''Uploading metadata...''],
           Started (NftsUploadMetadata metadata),
           Rejected (NftsUploadMetadata metadata) e], Inl e)"
  | (create_rejected) u e where
      "uploadMetadata w metadata = Inr u"
      "nftsCreate w (createInput w u) = Inl e"
      "createNFTsScript w =
         ([ConsoleLog [Text ''Payer address:'', Base58 (publicKey (payer w))],
           ConsoleLog [Text ''Uploading metadata...''],
           Started (NftsUploadMetadata metadata),
           Fulfilled (NftsUploadMetadata metadata),
           ConsoleLog [Text ''Metadata uploaded:'', Text u],
           PrintConsoleSeparator (Some ''NFT details''),
           ConsoleLog [Text ''Creating NFT using Metaplex...''],
           Started (NftsCreate (createInput w u)),
           Rejected (NftsCreate (createInput w u)) e], Inl e)"
  | (find_rejected) u created e where
      "uploadMetadata w metadata = Inr u"
      "nftsCreate w (createInput w u) = Inr created"
      "findByMint w (publicKey (generate w)) = Inl e"
      "createNFTsScript w =
         ([ConsoleLog [Text ''Payer address:'', Base58 (publicKey (payer w))],
           ConsoleLog [Text ''Uploading metadata...''],
           Started (NftsUploadMetadata metadata),
           Fulfilled (NftsUploadMetadata metadata),
           ConsoleLog [Text ''Metadata uploaded:'', Text u],
           PrintConsoleSeparator (Some ''NFT details''),
           ConsoleLog [Text ''Creating NFT using Metaplex...''],
           Started (NftsCreate (createInput w u)),
           Fulfilled (NftsCreate (createInput w u)),
           ConsoleLog [NftObject (fst created)],
           PrintConsoleSeparator (Some ''NFT created:''),
           ConsoleLog [ExplorerURL (snd created)],
           PrintConsoleSeparator (Some ''Find by mint:''),
           Started (NftsFindByMint (publicKey (generate w))),
           Rejected (NftsFindByMint (publicKey (generate w))) e], Inl e)"
  | (completed) u created mintInfo where
      "uploadMetadata w metadata = Inr u"
      "nftsCreate w (createInput w u) = Inr created"
      "findByMint w (publicKey (generate w)) = Inr mintInfo"
      "createNFTsScript w =
         ([ConsoleLog [Text ''Payer address:'', Base58 (publicKey (payer w))],
           ConsoleLog [Text ''Uploading metadata...''],
           Started (NftsUploadMetadata metadata),
           Fulfilled (NftsUploadMetadata metadata),
           ConsoleLog [Text ''Metadata uploaded:'', Text u],
           PrintConsoleSeparator (Some ''NFT details''),
           ConsoleLog [Text ''Creating NFT using Metaplex...''],
           Started (NftsCreate (createInput w u)),
           Fulfilled (NftsCreate (createInput w u)),
           ConsoleLog [NftObject (fst created)],
           PrintConsoleSeparator (Some ''NFT created:''),
           ConsoleLog [ExplorerURL (snd created)],
           PrintConsoleSeparator (Some ''Find by mint:''),
           Started (NftsFindByMint (publicKey (generate w))),
           Fulfilled (NftsFindByMint (publicKey (generate w))),
           ConsoleLog [NftObject mintInfo]], Inr ())"
proof (cases "uploadMetadata w metadata")
  case (Inl e)
  then show thesis
    by (intro upload_rejected [of e]) (simp_all add: createNFTsScript_def run_simps)
next
  case up: (Inr u)
  show thesis
  proof (cases "nftsCreate w (createInput w u)")
    case (Inl e)
    with up show thesis
      by (intro create_rejected [of u e]) (simp_all add: createNFTsScript_def run_simps)
  next
    case cr: (Inr created)
    show thesis
    proof (cases "findByMint w (publicKey (generate w))")
      case (Inl e)
      with up cr show thesis
        by (intro find_rejected [of u created e]) (simp_all add: createNFTsScript_def run_simps)
    next
      case (Inr mintInfo)
      with up cr show thesis
        by (intro completed [of u created mintInfo])
           (simp_all add: createNFTsScript_def run_simps)
    qed
  qed
qed

lemmas instruction_defs = tokenMintInstructions_def createMintAccountInstruction_def
  initializeMintInstruction_def createMetadataInstruction_def
  createAssociatedTokenAccountSelfInstruction_def mintTokenToSelfInstruction_def
  createAssociatedTokenAccountStaticInstruction_def mintTokenToStaticAddressInstruction_def
  theTokenConfig_def

lemmas tx_defs = tokenMintTx_def indexTx_def indexMessage_def sign_def newVersionedTransaction_def

lemmas index_ix_defs = createAccountIx_def transferToStaticWalletIx_def closeAccountIx_def

lemma tokenMint_logged_metadata:
  "ConsoleLog [Text ''Metadata address:'', Base58 a] \<in> set (trace (tokenMintScript lib w)) \<Longrightarrow>
   a = metadataAccount lib w"
  by (rule tokenMintScript_cases [where w = w and lib = lib])
     (auto simp add: printedFailedSig_def split: option.splits if_splits)

lemma tokenMint_submitted:
  "Started (SendTransaction tx) \<in> set (trace (tokenMintScript lib w)) \<Longrightarrow>
   \<exists>rent bh. getMinimumBalanceForRentExemption w (MINT_SIZE lib) = Inr rent \<and>
     getLatestBlockhash w = Inr bh \<and> tx = tokenMintTx lib w rent bh"
  by (rule tokenMintScript_cases [where w = w and lib = lib])
     (auto simp add: printedFailedSig_def split: option.splits if_splits)

lemma tokenMintTx_metadataAddress:
  "List.map_filter metadataAddress (instructions (message (tokenMintTx lib w rent bh))) =
     [metadataAccount lib w]"
  by (simp add: tx_defs instruction_defs List.map_filter_def)

subsection \<open>The example worlds\<close>

lemma calmWorld_simps:
  "publicKey (payer calmWorld) = ''PAYER''"
  "publicKey (testWallet calmWorld) = ''TEST''"
  "STATIC_PUBLICKEY calmWorld = ''STATIC''"
  "publicKey (generate calmWorld) = ''FRESH''"
  "getMinimumBalanceForRentExemption calmWorld n = Inr 1461600"
  "getLatestBlockhash calmWorld = Inr ''BLOCKHASH''"
  "sendTransaction calmWorld tx = Inr ''SIGNATURE''"
  "extractSignatureFromFailedTransaction calmWorld e = None"
  "savePublicKeyToFile calmWorld nm key = None"
  "uploadMetadata calmWorld m = Inr ''https://arweave.net/pepe''"
  "nftsCreate calmWorld i = Inr (''NFT'', ''SIGNATURE'')"
  "findByMint calmWorld key = Inr ''NFT''"
  by (simp_all add: calmWorld_def)

lemma stormWorld_simps:
  "publicKey (payer stormWorld) = ''PAYER''"
  "publicKey (testWallet stormWorld) = ''TEST''"
  "STATIC_PUBLICKEY stormWorld = ''STATIC''"
  "publicKey (generate stormWorld) = ''FRESH''"
  "getMinimumBalanceForRentExemption stormWorld n = Inr 1461600"
  "getLatestBlockhash stormWorld = Inr ''BLOCKHASH''"
  "sendTransaction stormWorld tx = Inl (Thrown ''Transaction FAILEDSIG failed'')"
  "extractSignatureFromFailedTransaction stormWorld e = Some ''FAILEDSIG''"
  "savePublicKeyToFile stormWorld nm key = None"
  "uploadMetadata stormWorld m = Inr ''https://arweave.net/pepe''"
  "nftsCreate stormWorld i = Inl (Thrown ''create failed'')"
  "findByMint stormWorld key = Inr ''NFT''"
  by (simp_all add: stormWorld_def calmWorld_def)

lemma otherWorld_simps:
  "publicKey (payer otherWorld) = ''OTHER''"
  "STATIC_PUBLICKEY otherWorld = ''ELSEWHERE''"
  "publicKey (generate otherWorld) = ''FRESH''"
  "getMinimumBalanceForRentExemption otherWorld n = Inr 2000000"
  "getLatestBlockhash otherWorld = Inr ''LATER''"
  by (simp_all add: otherWorld_def calmWorld_def)

lemma printedFailedSig_storm:
  "printedFailedSig stormWorld e = [ConsoleLog [Text ''Failed signature:'', ExplorerURL ''FAILEDSIG'']]"
  by (simp add: printedFailedSig_def stormWorld_simps)

lemma index_calm:
  "indexScript exampleSdk calmWorld =
     ([ConsoleLog [Text ''Payer address:'', Base58 ''PAYER''],
       ConsoleLog [Text ''Test wallet address:'', Base58 ''TEST''],
       Started GetLatestBlockhash, Fulfilled GetLatestBlockhash,
       Started (SendTransaction (indexTx exampleSdk calmWorld ''BLOCKHASH'')),
       Fulfilled (SendTransaction (indexTx exampleSdk calmWorld ''BLOCKHASH'')),
       PrintConsoleSeparator None,
       ConsoleLog [Text ''Transaction completed.''],
       ConsoleLog [ExplorerURL ''SIGNATURE'']], Inr ())"
  by (simp add: indexScript_def run_simps calmWorld_simps)

lemma index_storm:
  "indexScript exampleSdk stormWorld =
     ([ConsoleLog [Text ''Payer address:'', Base58 ''PAYER''],
       ConsoleLog [Text ''Test wallet address:'', Base58 ''TEST''],
       Started GetLatestBlockhash, Fulfilled GetLatestBlockhash,
       Started (SendTransaction (indexTx exampleSdk stormWorld ''BLOCKHASH'')),
       Rejected (SendTransaction (indexTx exampleSdk stormWorld ''BLOCKHASH''))
         (Thrown ''Transaction FAILEDSIG failed'')],
      Inl (Thrown ''Transaction FAILEDSIG failed''))"
  by (simp add: indexScript_def run_simps stormWorld_simps)

lemma tokenMint_calm:
  "tokenMintScript exampleSdk calmWorld =
     ([ConsoleLog [Text ''Payer address:'', Base58 ''PAYER''],
       ConsoleLog [Text ''Test wallet address:'', Base58 ''TEST''],
       ConsoleLog [Text ''Mint address:'', Base58 ''FRESH''],
       Started (GetMinimumBalanceForRentExemption 82),
       Fulfilled (GetMinimumBalanceForRentExemption 82),
       ConsoleLog [Text ''Metadata address:'', Base58 (metadataAccount exampleSdk calmWorld)],
       Started GetLatestBlockhash, Fulfilled GetLatestBlockhash,
       PrintConsoleSeparator None,
       Started (SendTransaction (tokenMintTx exampleSdk calmWorld 1461600 ''BLOCKHASH'')),
       Fulfilled (SendTransaction (tokenMintTx exampleSdk calmWorld 1461600 ''BLOCKHASH'')),
       ConsoleLog [Text ''Transaction completed.''],
       ConsoleLog [ExplorerURL ''SIGNATURE''],
       SavePublicKeyToFile ''tokenMint'' ''FRESH''], Inr ())"
proof -
  have space: "MINT_SIZE exampleSdk = 82"
    by (simp add: exampleSdk_def)
  show ?thesis
    by (rule tokenMintScript_cases [where w = calmWorld and lib = exampleSdk])
       (auto simp add: space calmWorld_simps)
qed

lemma tokenMint_storm:
  "tokenMintScript exampleSdk stormWorld =
     ([ConsoleLog [Text ''Payer address:'', Base58 ''PAYER''],
       ConsoleLog [Text ''Test wallet address:'', Base58 ''TEST''],
       ConsoleLog [Text ''Mint address:'', Base58 ''FRESH''],
       Started (GetMinimumBalanceForRentExemption 82),
       Fulfilled (GetMinimumBalanceForRentExemption 82),
       ConsoleLog [Text ''Metadata address:'', Base58 (metadataAccount exampleSdk stormWorld)],
       Started GetLatestBlockhash, Fulfilled GetLatestBlockhash,
       PrintConsoleSeparator None,
       Started (SendTransaction (tokenMintTx exampleSdk stormWorld 1461600 ''BLOCKHASH'')),
       Rejected (SendTransaction (tokenMintTx exampleSdk stormWorld 1461600 ''BLOCKHASH''))
         (Thrown ''Transaction FAILEDSIG failed''),
       ConsoleError [Text ''Failed to send transaction:''],
       ConsoleLog [TxObject (tokenMintTx exampleSdk stormWorld 1461600 ''BLOCKHASH'')],
       Started (ExtractSignatureFromFailedTransaction (Thrown ''Transaction FAILEDSIG failed'')),
       Fulfilled (ExtractSignatureFromFailedTransaction (Thrown ''Transaction FAILEDSIG failed'')),
       ConsoleLog [Text ''Failed signature:'', ExplorerURL ''FAILEDSIG'']],
      Inl (Thrown ''Transaction FAILEDSIG failed''))"
proof -
  have space: "MINT_SIZE exampleSdk = 82"
    by (simp add: exampleSdk_def)
  show ?thesis
    by (rule tokenMintScript_cases [where w = stormWorld and lib = exampleSdk])
       (auto simp add: space stormWorld_simps printedFailedSig_storm)
qed

lemma createNFTs_calm:
  "createNFTsScript calmWorld =
     ([ConsoleLog [Text ''Payer address:'', Base58 ''PAYER''],
       ConsoleLog [Text ''Uploading metadata...''],
       Started (NftsUploadMetadata metadata),
       Fulfilled (NftsUploadMetadata metadata),
       ConsoleLog [Text ''Metadata uploaded:'', Text ''https://arweave.net/pepe''],
       PrintConsoleSeparator (Some ''NFT details''),
       ConsoleLog [Text ''Creating NFT using Metaplex...''],
       Started (NftsCreate (createInput calmWorld ''https://arweave.net/pepe'')),
       Fulfilled (NftsCreate (createInput calmWorld ''https://arweave.net/pepe'')),
       ConsoleLog [NftObject ''NFT''],
       PrintConsoleSeparator (Some ''NFT created:''),
       ConsoleLog [ExplorerURL ''SIGNATURE''],
       PrintConsoleSeparator (Some ''Find by mint:''),
       Started (NftsFindByMint ''FRESH''),
       Fulfilled (NftsFindByMint ''FRESH''),
       ConsoleLog [NftObject ''NFT'']], Inr ())"
  by (simp add: createNFTsScript_def run_simps calmWorld_simps)

lemma createNFTs_storm:
  "createNFTsScript stormWorld =
     ([ConsoleLog [Text ''Payer address:'', Base58 ''PAYER''],
       ConsoleLog [Text ''Uploading metadata...''],
       Started (NftsUploadMetadata metadata),
       Fulfilled (NftsUploadMetadata metadata),
       ConsoleLog [Text ''Metadata uploaded:'', Text ''https://arweave.net/pepe''],
       PrintConsoleSeparator (Some ''NFT details''),
       ConsoleLog [Text ''Creating NFT using Metaplex...''],
       Started (NftsCreate (createInput stormWorld ''https://arweave.net/pepe'')),
       Rejected (NftsCreate (createInput stormWorld ''https://arweave.net/pepe''))
         (Thrown ''create failed'')],
      Inl (Thrown ''create failed''))"
  by (simp add: createNFTsScript_def run_simps stormWorld_simps)

section \<open>Error handling\<close>

text \<open>
  The week-1 script has no \<open>try\<close>/\<open>catch\<close>: in \<open>stormWorld\<close> its submission is
  rejected, the run ends with that error, and no signature extraction is attempted.
\<close>

theorem index_failed_send_extracts_nothing:
  "getLatestBlockhash stormWorld = Inr ''BLOCKHASH'' \<and>
   sendTransaction stormWorld (indexTx exampleSdk stormWorld ''BLOCKHASH'') =
     Inl (Thrown ''Transaction FAILEDSIG failed'') \<and>
   last (trace (indexScript exampleSdk stormWorld)) =
     Rejected (SendTransaction (indexTx exampleSdk stormWorld ''BLOCKHASH''))
       (Thrown ''Transaction FAILEDSIG failed'') \<and>
   outcome (indexScript exampleSdk stormWorld) = Inl (Thrown ''Transaction FAILEDSIG failed'') \<and>
   filter isExtraction (trace (indexScript exampleSdk stormWorld)) = []"
  by (simp add: index_storm stormWorld_simps)

text \<open>
  Claim C1, as the code has it: when the submission of the token-mint script is rejected,
  the script attempts exactly one signature extraction, on the thrown error, and the run
  ends with that error. The week-1 and NFT scripts never attempt an extraction; a rejected
  submission ends their run with the error.
\<close>

theorem signature_extraction_only_in_tokenMint:
  "(getMinimumBalanceForRentExemption w (MINT_SIZE lib) = Inr rent \<and>
    getLatestBlockhash w = Inr bh \<and>
    sendTransaction w (tokenMintTx lib w rent bh) = Inl e \<longrightarrow>
      filter isExtraction (trace (tokenMintScript lib w)) =
        [Started (ExtractSignatureFromFailedTransaction e)] \<and>
      outcome (tokenMintScript lib w) = Inl e) \<and>
   filter isExtraction (trace (indexScript lib w)) = [] \<and>
   (getLatestBlockhash w = Inr bh' \<and> sendTransaction w (indexTx lib w bh') = Inl e' \<longrightarrow>
      outcome (indexScript lib w) = Inl e') \<and>
   filter isExtraction (trace (createNFTsScript w)) = [] \<and>
   (uploadMetadata w metadata = Inr u \<and> nftsCreate w (createInput w u) = Inl e'' \<longrightarrow>
      outcome (createNFTsScript w) = Inl e'')"
proof (intro conjI impI)
  assume failed: "getMinimumBalanceForRentExemption w (MINT_SIZE lib) = Inr rent \<and>
    getLatestBlockhash w = Inr bh \<and>
    sendTransaction w (tokenMintTx lib w rent bh) = Inl e"
  show "filter isExtraction (trace (tokenMintScript lib w)) =
        [Started (ExtractSignatureFromFailedTransaction e)]"
    by (rule tokenMintScript_cases [where w = w and lib = lib])
       (use failed in \<open>simp_all add: printedFailedSig_def split: option.split\<close>)
  show "outcome (tokenMintScript lib w) = Inl e"
    by (rule tokenMintScript_cases [where w = w and lib = lib]) (use failed in simp_all)
next
  show "filter isExtraction (trace (indexScript lib w)) = []"
    by (rule indexScript_cases [where w = w and lib = lib]) simp_all
next
  assume failed: "getLatestBlockhash w = Inr bh' \<and> sendTransaction w (indexTx lib w bh') = Inl e'"
  show "outcome (indexScript lib w) = Inl e'"
    by (rule indexScript_cases [where w = w and lib = lib]) (use failed in simp_all)
next
  show "filter isExtraction (trace (createNFTsScript w)) = []"
    by (rule createNFTsScript_cases [where w = w]) simp_all
next
  assume failed: "uploadMetadata w metadata = Inr u \<and> nftsCreate w (createInput w u) = Inl e''"
  show "outcome (createNFTsScript w) = Inl e''"
    by (rule createNFTsScript_cases [where w = w]) (use failed in simp_all)
qed

theorem signature_extraction_only_in_tokenMint_witness:
  "getMinimumBalanceForRentExemption stormWorld (MINT_SIZE exampleSdk) = Inr 1461600 \<and>
   getLatestBlockhash stormWorld = Inr ''BLOCKHASH'' \<and>
   sendTransaction stormWorld (tokenMintTx exampleSdk stormWorld 1461600 ''BLOCKHASH'') =
     Inl (Thrown ''Transaction FAILEDSIG failed'') \<and>
   filter isExtraction (trace (tokenMintScript exampleSdk stormWorld)) =
     [Started (ExtractSignatureFromFailedTransaction (Thrown ''Transaction FAILEDSIG failed''))] \<and>
   outcome (tokenMintScript exampleSdk stormWorld) = Inl (Thrown ''Transaction FAILEDSIG failed'') \<and>
   sendTransaction stormWorld (indexTx exampleSdk stormWorld ''BLOCKHASH'') =
     Inl (Thrown ''Transaction FAILEDSIG failed'') \<and>
   outcome (indexScript exampleSdk stormWorld) = Inl (Thrown ''Transaction FAILEDSIG failed'') \<and>
   uploadMetadata stormWorld metadata = Inr ''https://arweave.net/pepe'' \<and>
   nftsCreate stormWorld (createInput stormWorld ''https://arweave.net/pepe'') =
     Inl (Thrown ''create failed'') \<and>
   outcome (createNFTsScript stormWorld) = Inl (Thrown ''create failed'')"
  using signature_extraction_only_in_tokenMint
    [where w = stormWorld and lib = exampleSdk and rent = 1461600 and bh = "''BLOCKHASH''"
       and e = "Thrown ''Transaction FAILEDSIG failed''" and bh' = "''BLOCKHASH''"
       and e' = "Thrown ''Transaction FAILEDSIG failed''" and u = "''https://arweave.net/pepe''"
       and e'' = "Thrown ''create failed''"]
  by (simp add: stormWorld_simps)

text \<open>
  Claim C2: in the token-mint script, when the submission is rejected with an error, the
  run from the submission on is: the rejected send, the message
  \<open>Failed to send transaction:\<close> on the error console, the built transaction on the
  log, the signature extraction on the thrown error, and the extracted signature on the
  log if there is one; and the run ends with the very error the submission threw.
\<close>

theorem tokenMint_catch_rethrows:
  assumes "getMinimumBalanceForRentExemption w (MINT_SIZE lib) = Inr rent"
    and "getLatestBlockhash w = Inr bh"
    and "sendTransaction w (tokenMintTx lib w rent bh) = Inl e"
  shows "fromSubmission (trace (tokenMintScript lib w)) =
           [Started (SendTransaction (tokenMintTx lib w rent bh)),
            Rejected (SendTransaction (tokenMintTx lib w rent bh)) e,
            ConsoleError [Text ''Failed to send transaction:''],
            ConsoleLog [TxObject (tokenMintTx lib w rent bh)],
            Started (ExtractSignatureFromFailedTransaction e),
            Fulfilled (ExtractSignatureFromFailedTransaction e)] @ printedFailedSig w e
         \<and> outcome (tokenMintScript lib w) = Inl e"
  by (rule tokenMintScript_cases [where w = w and lib = lib])
     (use assms in \<open>simp_all add: fromSubmission_def\<close>)

theorem tokenMint_catch_rethrows_witness:
  "fromSubmission (trace (tokenMintScript exampleSdk stormWorld)) =
     [Started (SendTransaction (tokenMintTx exampleSdk stormWorld 1461600 ''BLOCKHASH'')),
      Rejected (SendTransaction (tokenMintTx exampleSdk stormWorld 1461600 ''BLOCKHASH''))
        (Thrown ''Transaction FAILEDSIG failed''),
      ConsoleError [Text ''Failed to send transaction:''],
      ConsoleLog [TxObject (tokenMintTx exampleSdk stormWorld 1461600 ''BLOCKHASH'')],
      Started (ExtractSignatureFromFailedTransaction (Thrown ''Transaction FAILEDSIG failed'')),
      Fulfilled (ExtractSignatureFromFailedTransaction (Thrown ''Transaction FAILEDSIG failed'')),
      ConsoleLog [Text ''Failed signature:'', ExplorerURL ''FAILEDSIG'']]
   \<and> outcome (tokenMintScript exampleSdk stormWorld) = Inl (Thrown ''Transaction FAILEDSIG failed'')"
proof -
  have rent: "getMinimumBalanceForRentExemption stormWorld (MINT_SIZE exampleSdk) = Inr 1461600"
    by (simp add: stormWorld_simps)
  have bh: "getLatestBlockhash stormWorld = Inr ''BLOCKHASH''"
    by (simp add: stormWorld_simps)
  have send: "sendTransaction stormWorld (tokenMintTx exampleSdk stormWorld 1461600 ''BLOCKHASH'') =
      Inl (Thrown ''Transaction FAILEDSIG failed'')"
    by (simp add: stormWorld_simps)
  show ?thesis
    using tokenMint_catch_rethrows [OF rent bh send] by (simp add: printedFailedSig_storm)
qed

section \<open>What a run leaves behind\<close>

text \<open>
  Claim C3: the only file a script writes is the one of \<open>savePublicKeyToFile\<close>. The
  week-1 and NFT scripts write none. The token-mint script writes the generated mint's
  public key under the name \<open>tokenMint\<close>, once, exactly in the runs whose submission was
  fulfilled, and not before it was; a run whose submission was rejected writes no file.
\<close>

theorem only_file_write_is_saved_mint_key:
  "filter isFileWrite (trace (indexScript lib w)) = [] \<and>
   filter isFileWrite (trace (createNFTsScript w)) = [] \<and>
   filter isFileWrite (trace (tokenMintScript lib w)) =
     (if list_ex isSendFulfilled (trace (tokenMintScript lib w))
      then [SavePublicKeyToFile ''tokenMint'' (publicKey (generate w))] else []) \<and>
   onlyAfter isSendFulfilled isFileWrite (trace (tokenMintScript lib w)) \<and>
   (Rejected (SendTransaction tx) e \<in> set (trace (tokenMintScript lib w)) \<longrightarrow>
      filter isFileWrite (trace (tokenMintScript lib w)) = [])"
proof (intro conjI)
  show "filter isFileWrite (trace (indexScript lib w)) = []"
    by (rule indexScript_cases [where w = w and lib = lib]) simp_all
  show "filter isFileWrite (trace (createNFTsScript w)) = []"
    by (rule createNFTsScript_cases [where w = w]) simp_all
  show "filter isFileWrite (trace (tokenMintScript lib w)) =
     (if list_ex isSendFulfilled (trace (tokenMintScript lib w))
      then [SavePublicKeyToFile ''tokenMint'' (publicKey (generate w))] else [])"
    by (rule tokenMintScript_cases [where w = w and lib = lib])
       (simp_all add: printedFailedSig_def split: option.split)
  show "onlyAfter isSendFulfilled isFileWrite (trace (tokenMintScript lib w))"
    by (rule tokenMintScript_cases [where w = w and lib = lib])
       (simp_all add: printedFailedSig_def split: option.split)
  show "Rejected (SendTransaction tx) e \<in> set (trace (tokenMintScript lib w)) \<longrightarrow>
      filter isFileWrite (trace (tokenMintScript lib w)) = []"
    by (rule tokenMintScript_cases [where w = w and lib = lib])
       (simp_all add: printedFailedSig_def split: option.split)
qed

theorem only_file_write_is_saved_mint_key_witness:
  "filter isFileWrite (trace (tokenMintScript exampleSdk calmWorld)) =
     [SavePublicKeyToFile ''tokenMint'' ''FRESH''] \<and>
   list_ex isSendFulfilled (trace (tokenMintScript exampleSdk calmWorld)) \<and>
   Rejected (SendTransaction (tokenMintTx exampleSdk stormWorld 1461600 ''BLOCKHASH''))
     (Thrown ''Transaction FAILEDSIG failed'') \<in> set (trace (tokenMintScript exampleSdk stormWorld)) \<and>
   filter isFileWrite (trace (tokenMintScript exampleSdk stormWorld)) = [] \<and>
   filter isFileWrite (trace (indexScript exampleSdk calmWorld)) = [] \<and>
   filter isFileWrite (trace (createNFTsScript calmWorld)) = []"
  using only_file_write_is_saved_mint_key
    [where w = calmWorld and lib = exampleSdk]
    only_file_write_is_saved_mint_key
    [where w = stormWorld and lib = exampleSdk
       and tx = "tokenMintTx exampleSdk stormWorld 1461600 ''BLOCKHASH''"
       and e = "Thrown ''Transaction FAILEDSIG failed''"]
  by (simp add: tokenMint_calm tokenMint_storm index_calm createNFTs_calm)

section \<open>What is submitted\<close>

text \<open>
  Claim C4: the transaction the week-1 script submits carries exactly the three
  constructed instructions in construction order (create the account with 200,000,000
  lamports, transfer 100,000,000 to the static wallet, transfer 100,000,000 back to the
  payer), the fetched recent blockhash, the payer as fee payer, and the signatures of the
  payer keypair and of the newly generated keypair; once the blockhash is fetched, this one
  transaction is what the script submits.
\<close>

theorem index_transaction_assembly:
  "(Started (SendTransaction tx) \<in> set (trace (indexScript lib w)) \<longrightarrow>
      instructions (message tx) =
        [CreateAccount (publicKey (payer w)) (publicKey (generate w)) 200000000 0
           (SystemProgram_programId lib),
         Transfer 100000000 (publicKey (generate w)) (STATIC_PUBLICKEY w)
           (SystemProgram_programId lib),
         Transfer 100000000 (publicKey (generate w)) (publicKey (payer w))
           (SystemProgram_programId lib)] \<and>
      getLatestBlockhash w = Inr (recentBlockhash (message tx)) \<and>
      payerKey (message tx) = publicKey (payer w) \<and>
      signatures tx = [publicKey (payer w), publicKey (generate w)]) \<and>
   (getLatestBlockhash w = Inr bh \<longrightarrow>
      filter isSubmission (trace (indexScript lib w)) =
        [Started (SendTransaction (indexTx lib w bh))])"
proof (intro conjI)
  show "Started (SendTransaction tx) \<in> set (trace (indexScript lib w)) \<longrightarrow>
      instructions (message tx) =
        [CreateAccount (publicKey (payer w)) (publicKey (generate w)) 200000000 0
           (SystemProgram_programId lib),
         Transfer 100000000 (publicKey (generate w)) (STATIC_PUBLICKEY w)
           (SystemProgram_programId lib),
         Transfer 100000000 (publicKey (generate w)) (publicKey (payer w))
           (SystemProgram_programId lib)] \<and>
      getLatestBlockhash w = Inr (recentBlockhash (message tx)) \<and>
      payerKey (message tx) = publicKey (payer w) \<and>
      signatures tx = [publicKey (payer w), publicKey (generate w)]"
    by (rule indexScript_cases [where w = w and lib = lib])
       (auto simp add: tx_defs index_ix_defs)
  show "getLatestBlockhash w = Inr bh \<longrightarrow>
      filter isSubmission (trace (indexScript lib w)) =
        [Started (SendTransaction (indexTx lib w bh))]"
    by (rule indexScript_cases [where w = w and lib = lib]) simp_all
qed

theorem index_transaction_assembly_witness:
  "Started (SendTransaction (indexTx exampleSdk calmWorld ''BLOCKHASH''))
     \<in> set (trace (indexScript exampleSdk calmWorld)) \<and>
   instructions (message (indexTx exampleSdk calmWorld ''BLOCKHASH'')) =
     [CreateAccount ''PAYER'' ''FRESH'' 200000000 0 ''11111111111111111111111111111111'',
      Transfer 100000000 ''FRESH'' ''STATIC'' ''11111111111111111111111111111111'',
      Transfer 100000000 ''FRESH'' ''PAYER'' ''11111111111111111111111111111111''] \<and>
   recentBlockhash (message (indexTx exampleSdk calmWorld ''BLOCKHASH'')) = ''BLOCKHASH'' \<and>
   signatures (indexTx exampleSdk calmWorld ''BLOCKHASH'') = [''PAYER'', ''FRESH''] \<and>
   filter isSubmission (trace (indexScript exampleSdk calmWorld)) =
     [Started (SendTransaction (indexTx exampleSdk calmWorld ''BLOCKHASH''))]"
proof -
  have prog: "SystemProgram_programId exampleSdk = ''11111111111111111111111111111111''"
    by (simp add: exampleSdk_def)
  show ?thesis
    using index_transaction_assembly
      [where w = calmWorld and lib = exampleSdk and bh = "''BLOCKHASH''"
         and tx = "indexTx exampleSdk calmWorld ''BLOCKHASH''"]
    by (simp add: index_calm calmWorld_simps prog)
qed

text \<open>
  Claim C5: no script starts its submission more than once in a run. Nothing stands
  between the preceding fetch and the submission: as soon as the requests before it are
  fulfilled, the submission is started, with the transaction as constructed; and when the
  submission is rejected the run ends with that error, without another attempt.
\<close>

theorem single_submission_no_retry:
  "length (filter isSubmission (trace (indexScript lib w))) \<le> 1 \<and>
   length (filter isSubmission (trace (tokenMintScript lib w))) \<le> 1 \<and>
   length (filter isSubmission (trace (createNFTsScript w))) \<le> 1 \<and>
   (getLatestBlockhash w = Inr bh \<longrightarrow>
      filter isSubmission (trace (indexScript lib w)) =
        [Started (SendTransaction (indexTx lib w bh))] \<and>
      (\<forall>e. sendTransaction w (indexTx lib w bh) = Inl e \<longrightarrow> outcome (indexScript lib w) = Inl e)) \<and>
   (getMinimumBalanceForRentExemption w (MINT_SIZE lib) = Inr rent \<and>
    getLatestBlockhash w = Inr bh \<longrightarrow>
      filter isSubmission (trace (tokenMintScript lib w)) =
        [Started (SendTransaction (tokenMintTx lib w rent bh))] \<and>
      (\<forall>e. sendTransaction w (tokenMintTx lib w rent bh) = Inl e \<longrightarrow>
         outcome (tokenMintScript lib w) = Inl e)) \<and>
   (uploadMetadata w metadata = Inr u \<longrightarrow>
      filter isSubmission (trace (createNFTsScript w)) = [Started (NftsCreate (createInput w u))] \<and>
      (\<forall>e. nftsCreate w (createInput w u) = Inl e \<longrightarrow> outcome (createNFTsScript w) = Inl e))"
proof (intro conjI)
  show "length (filter isSubmission (trace (indexScript lib w))) \<le> 1"
    by (rule indexScript_cases [where w = w and lib = lib]) simp_all
  show "length (filter isSubmission (trace (tokenMintScript lib w))) \<le> 1"
    by (rule tokenMintScript_cases [where w = w and lib = lib])
       (simp_all add: printedFailedSig_def split: option.split)
  show "length (filter isSubmission (trace (createNFTsScript w))) \<le> 1"
    by (rule createNFTsScript_cases [where w = w]) simp_all
  show "getLatestBlockhash w = Inr bh \<longrightarrow>
      filter isSubmission (trace (indexScript lib w)) =
        [Started (SendTransaction (indexTx lib w bh))] \<and>
      (\<forall>e. sendTransaction w (indexTx lib w bh) = Inl e \<longrightarrow> outcome (indexScript lib w) = Inl e)"
    by (rule indexScript_cases [where w = w and lib = lib]) auto
  show "getMinimumBalanceForRentExemption w (MINT_SIZE lib) = Inr rent \<and>
    getLatestBlockhash w = Inr bh \<longrightarrow>
      filter isSubmission (trace (tokenMintScript lib w)) =
        [Started (SendTransaction (tokenMintTx lib w rent bh))] \<and>
      (\<forall>e. sendTransaction w (tokenMintTx lib w rent bh) = Inl e \<longrightarrow>
         outcome (tokenMintScript lib w) = Inl e)"
    by (rule tokenMintScript_cases [where w = w and lib = lib])
       (auto simp add: printedFailedSig_def split: option.split)
  show "uploadMetadata w metadata = Inr u \<longrightarrow>
      filter isSubmission (trace (createNFTsScript w)) = [Started (NftsCreate (createInput w u))] \<and>
      (\<forall>e. nftsCreate w (createInput w u) = Inl e \<longrightarrow> outcome (createNFTsScript w) = Inl e)"
    by (rule createNFTsScript_cases [where w = w]) auto
qed

theorem single_submission_no_retry_witness:
  "getMinimumBalanceForRentExemption stormWorld (MINT_SIZE exampleSdk) = Inr 1461600 \<and>
   getLatestBlockhash stormWorld = Inr ''BLOCKHASH'' \<and>
   uploadMetadata stormWorld metadata = Inr ''https://arweave.net/pepe'' \<and>
   filter isSubmission (trace (indexScript exampleSdk stormWorld)) =
     [Started (SendTransaction (indexTx exampleSdk stormWorld ''BLOCKHASH''))] \<and>
   outcome (indexScript exampleSdk stormWorld) = Inl (Thrown ''Transaction FAILEDSIG failed'') \<and>
   filter isSubmission (trace (tokenMintScript exampleSdk stormWorld)) =
     [Started (SendTransaction (tokenMintTx exampleSdk stormWorld 1461600 ''BLOCKHASH''))] \<and>
   outcome (tokenMintScript exampleSdk stormWorld) = Inl (Thrown ''Transaction FAILEDSIG failed'') \<and>
   filter isSubmission (trace (createNFTsScript stormWorld)) =
     [Started (NftsCreate (createInput stormWorld ''https://arweave.net/pepe''))] \<and>
   outcome (createNFTsScript stormWorld) = Inl (Thrown ''create failed'')"
  using single_submission_no_retry
    [where w = stormWorld and lib = exampleSdk and rent = 1461600 and bh = "''BLOCKHASH''"
       and u = "''https://arweave.net/pepe''"]
  by (simp add: stormWorld_simps)

text \<open>
  Claim C6: the metadata account of the token-mint script is
  \<open>findProgramAddressSync\<close> applied to the seeds \<open>"metadata"\<close>, the metadata program id
  and the mint public key, for the metadata program id. So two runs against the same SDK
  whose generated mint keypairs have the same public key derive the same metadata
  account, whatever else differs between them: the address they print is the same, and
  so is the metadata account of the instruction they submit.
\<close>

theorem metadataAccount_deterministic:
  assumes "publicKey (generate w1) = publicKey (generate w2)"
  shows "metadataAccount lib w1 =
           fst (findProgramAddressSync lib
                  [BufferFrom ''metadata'', ToBuffer (METADATA_PROGRAM_ID lib),
                   ToBuffer (publicKey (generate w1))]
                  (METADATA_PROGRAM_ID lib)) \<and>
    metadataAccount lib w1 = metadataAccount lib w2 \<and>
    (ConsoleLog [Text ''Metadata address:'', Base58 a1] \<in> set (trace (tokenMintScript lib w1)) \<and>
     ConsoleLog [Text ''Metadata address:'', Base58 a2] \<in> set (trace (tokenMintScript lib w2))
       \<longrightarrow> a1 = a2) \<and>
    (Started (SendTransaction tx1) \<in> set (trace (tokenMintScript lib w1)) \<and>
     Started (SendTransaction tx2) \<in> set (trace (tokenMintScript lib w2))
       \<longrightarrow> List.map_filter metadataAddress (instructions (message tx1)) =
             [metadataAccount lib w1] \<and>
           List.map_filter metadataAddress (instructions (message tx2)) =
             [metadataAccount lib w1])"
proof -
  have derived: "metadataAccount lib w1 =
           fst (findProgramAddressSync lib
                  [BufferFrom ''metadata'', ToBuffer (METADATA_PROGRAM_ID lib),
                   ToBuffer (publicKey (generate w1))]
                  (METADATA_PROGRAM_ID lib))"
    by (simp add: metadataAccount_def)
  have same: "metadataAccount lib w1 = metadataAccount lib w2"
    using assms by (simp add: metadataAccount_def)
  have logged: "a1 = a2"
    if "ConsoleLog [Text ''Metadata address:'', Base58 a1] \<in> set (trace (tokenMintScript lib w1))"
      and "ConsoleLog [Text ''Metadata address:'', Base58 a2] \<in> set (trace (tokenMintScript lib w2))"
    using tokenMint_logged_metadata [OF that(1)] tokenMint_logged_metadata [OF that(2)] same
    by simp
  have sent: "List.map_filter metadataAddress (instructions (message tx1)) =
             [metadataAccount lib w1] \<and>
           List.map_filter metadataAddress (instructions (message tx2)) =
             [metadataAccount lib w1]"
    if "Started (SendTransaction tx1) \<in> set (trace (tokenMintScript lib w1))"
      and "Started (SendTransaction tx2) \<in> set (trace (tokenMintScript lib w2))"
    using tokenMint_submitted [OF that(1)] tokenMint_submitted [OF that(2)] same
    by (auto simp add: tokenMintTx_metadataAddress)
  from derived same logged sent show ?thesis by blast
qed

theorem metadataAccount_deterministic_witness:
  "publicKey (generate calmWorld) = publicKey (generate otherWorld) \<and>
   publicKey (payer calmWorld) \<noteq> publicKey (payer otherWorld) \<and>
   getLatestBlockhash calmWorld \<noteq> getLatestBlockhash otherWorld \<and>
   metadataAccount exampleSdk calmWorld = metadataAccount exampleSdk otherWorld \<and>
   ConsoleLog [Text ''Metadata address:'', Base58 (metadataAccount exampleSdk otherWorld)]
     \<in> set (trace (tokenMintScript exampleSdk calmWorld))"
proof -
  have key: "publicKey (generate calmWorld) = publicKey (generate otherWorld)"
    by (simp add: calmWorld_simps otherWorld_simps)
  show ?thesis
    using metadataAccount_deterministic
      [OF key, where lib = exampleSdk
         and ?a1.0 = "metadataAccount exampleSdk calmWorld"
         and ?a2.0 = "metadataAccount exampleSdk otherWorld"
         and ?tx1.0 = "tokenMintTx exampleSdk calmWorld 1461600 ''BLOCKHASH''"
         and ?tx2.0 = "tokenMintTx exampleSdk otherWorld 2000000 ''LATER''"]
    by (simp add: tokenMint_calm calmWorld_simps otherWorld_simps metadataAccount_def)
qed

text \<open>
  Claim C7: the configuration is the same in every run, whatever the network answers.
  A transaction the token-mint script submits has its seven instructions in the fixed
  order create account, initialize mint, create metadata, create token account, mint,
  create token account, mint; its mint is initialized with 6 decimals and its metadata
  has 0 seller-fee basis points. An NFT creation the NFT script requests has 1000
  seller-fee basis points. A transaction the week-1 script submits has the order create
  account, transfer, transfer.
\<close>

theorem fixed_configuration:
  "(Started (SendTransaction tx) \<in> set (trace (tokenMintScript lib w)) \<longrightarrow>
      map builder (instructions (message tx)) =
        [''SystemProgram.createAccount'', ''createInitializeMint2Instruction'',
         ''createCreateMetadataAccountV3Instruction'',
         ''createAssociatedTokenAccountInstruction'', ''createMintToInstruction'',
         ''createAssociatedTokenAccountInstruction'', ''createMintToInstruction''] \<and>
      List.map_filter mintDecimals (instructions (message tx)) = [6] \<and>
      List.map_filter sellerFee (instructions (message tx)) = [0]) \<and>
   (Started (NftsCreate i) \<in> set (trace (createNFTsScript w)) \<longrightarrow>
      n_sellerFeeBasisPoints i = 1000) \<and>
   (Started (SendTransaction tx') \<in> set (trace (indexScript lib w)) \<longrightarrow>
      map builder (instructions (message tx')) =
        [''SystemProgram.createAccount'', ''SystemProgram.transfer'', ''SystemProgram.transfer''])"
proof (intro conjI impI)
  assume "Started (SendTransaction tx) \<in> set (trace (tokenMintScript lib w))"
  then obtain rent bh where tx: "tx = tokenMintTx lib w rent bh"
    using tokenMint_submitted by blast
  show "map builder (instructions (message tx)) =
        [''SystemProgram.createAccount'', ''createInitializeMint2Instruction'',
         ''createCreateMetadataAccountV3Instruction'',
         ''createAssociatedTokenAccountInstruction'', ''createMintToInstruction'',
         ''createAssociatedTokenAccountInstruction'', ''createMintToInstruction'']"
    by (simp add: tx tx_defs instruction_defs)
  show "List.map_filter mintDecimals (instructions (message tx)) = [6]"
    by (simp add: tx tx_defs instruction_defs List.map_filter_def)
  show "List.map_filter sellerFee (instructions (message tx)) = [0]"
    by (simp add: tx tx_defs instruction_defs List.map_filter_def)
next
  assume requested: "Started (NftsCreate i) \<in> set (trace (createNFTsScript w))"
  show "n_sellerFeeBasisPoints i = 1000"
    by (rule createNFTsScript_cases [where w = w])
       (use requested in \<open>auto simp add: createInput_def\<close>)
next
  assume sent: "Started (SendTransaction tx') \<in> set (trace (indexScript lib w))"
  show "map builder (instructions (message tx')) =
        [''SystemProgram.createAccount'', ''SystemProgram.transfer'', ''SystemProgram.transfer'']"
    by (rule indexScript_cases [where w = w and lib = lib])
       (use sent in \<open>auto simp add: tx_defs index_ix_defs\<close>)
qed

theorem fixed_configuration_witness:
  "Started (SendTransaction (tokenMintTx exampleSdk calmWorld 1461600 ''BLOCKHASH''))
     \<in> set (trace (tokenMintScript exampleSdk calmWorld)) \<and>
   List.map_filter mintDecimals
     (instructions (message (tokenMintTx exampleSdk calmWorld 1461600 ''BLOCKHASH''))) = [6] \<and>
   List.map_filter sellerFee
     (instructions (message (tokenMintTx exampleSdk calmWorld 1461600 ''BLOCKHASH''))) = [0] \<and>
   Started (NftsCreate (createInput calmWorld ''https://arweave.net/pepe''))
     \<in> set (trace (createNFTsScript calmWorld)) \<and>
   n_sellerFeeBasisPoints (createInput calmWorld ''https://arweave.net/pepe'') = 1000 \<and>
   Started (SendTransaction (indexTx exampleSdk calmWorld ''BLOCKHASH''))
     \<in> set (trace (indexScript exampleSdk calmWorld)) \<and>
   map builder (instructions (message (indexTx exampleSdk calmWorld ''BLOCKHASH''))) =
     [''SystemProgram.createAccount'', ''SystemProgram.transfer'', ''SystemProgram.transfer'']"
  using fixed_configuration
    [where w = calmWorld and lib = exampleSdk
       and tx = "tokenMintTx exampleSdk calmWorld 1461600 ''BLOCKHASH''"
       and i = "createInput calmWorld ''https://arweave.net/pepe''"
       and tx' = "indexTx exampleSdk calmWorld ''BLOCKHASH''"]
  by (simp add: tokenMint_calm createNFTs_calm index_calm)

section \<open>Sequencing of the requests\<close>

text \<open>
  Claim C8: in every run of every script at most one awaited request is in flight, and
  the script does nothing while it waits. In the token-mint script the blockhash is
  requested (by \<open>buildTransaction\<close>) only after the rent-exemption request was
  fulfilled, and the transaction is submitted only after the blockhash request was
  fulfilled.
\<close>

theorem requests_strictly_sequential:
  "oneAtATime None (trace (indexScript lib w)) \<and>
   oneAtATime None (trace (tokenMintScript lib w)) \<and>
   oneAtATime None (trace (createNFTsScript w)) \<and>
   onlyAfter (\<lambda>ev. ev = Fulfilled (GetMinimumBalanceForRentExemption (MINT_SIZE lib)))
     (\<lambda>ev. ev = Started GetLatestBlockhash) (trace (tokenMintScript lib w)) \<and>
   onlyAfter (\<lambda>ev. ev = Fulfilled GetLatestBlockhash) isSubmission
     (trace (tokenMintScript lib w))"
proof (intro conjI)
  show "oneAtATime None (trace (indexScript lib w))"
    by (rule indexScript_cases [where w = w and lib = lib]) simp_all
  show "oneAtATime None (trace (tokenMintScript lib w))"
    by (rule tokenMintScript_cases [where w = w and lib = lib])
       (simp_all add: printedFailedSig_def split: option.split)
  show "oneAtATime None (trace (createNFTsScript w))"
    by (rule createNFTsScript_cases [where w = w]) simp_all
  show "onlyAfter (\<lambda>ev. ev = Fulfilled (GetMinimumBalanceForRentExemption (MINT_SIZE lib)))
     (\<lambda>ev. ev = Started GetLatestBlockhash) (trace (tokenMintScript lib w))"
    by (rule tokenMintScript_cases [where w = w and lib = lib]) simp_all
  show "onlyAfter (\<lambda>ev. ev = Fulfilled GetLatestBlockhash) isSubmission
     (trace (tokenMintScript lib w))"
    by (rule tokenMintScript_cases [where w = w and lib = lib]) simp_all
qed

theorem requests_strictly_sequential_witness:
  "oneAtATime None (trace (tokenMintScript exampleSdk calmWorld)) \<and>
   filter (\<lambda>ev. ev = Started GetLatestBlockhash \<or> isSubmission ev \<or>
                ev = Fulfilled (GetMinimumBalanceForRentExemption 82) \<or>
                ev = Fulfilled GetLatestBlockhash)
     (trace (tokenMintScript exampleSdk calmWorld)) =
     [Fulfilled (GetMinimumBalanceForRentExemption 82),
      Started GetLatestBlockhash, Fulfilled GetLatestBlockhash,
      Started (SendTransaction (tokenMintTx exampleSdk calmWorld 1461600 ''BLOCKHASH''))] \<and>
   onlyAfter (\<lambda>ev. ev = Fulfilled GetLatestBlockhash) isSubmission
     (trace (tokenMintScript exampleSdk calmWorld)) \<and>
   \<not> oneAtATime None
       [Started (GetMinimumBalanceForRentExemption 82), Started GetLatestBlockhash,
        Fulfilled (GetMinimumBalanceForRentExemption 82), Fulfilled GetLatestBlockhash] \<and>
   \<not> onlyAfter (\<lambda>ev. ev = Fulfilled GetLatestBlockhash) isSubmission
       [Started (SendTransaction (tokenMintTx exampleSdk calmWorld 1461600 ''BLOCKHASH'')),
        Fulfilled GetLatestBlockhash]"
  using requests_strictly_sequential [where w = calmWorld and lib = exampleSdk]
  by (simp add: tokenMint_calm)

section \<open>Lamports and names\<close>

text \<open>
  Claim C9: in the week-1 script the create-account instruction names 200,000,000
  lamports, each of the two transfers names 100,000,000, and the first equals the sum of
  the other two. When the generated key is a new one (neither the payer's nor the static
  wallet's), the three instructions move 200,000,000 lamports into the new account and
  200,000,000 out of it: its net lamport balance is zero.
\<close>

theorem index_lamports_balance:
  "lamportsOf (createAccountIx lib w) = 200000000 \<and>
   lamportsOf (transferToStaticWalletIx lib w) = 100000000 \<and>
   lamportsOf (closeAccountIx lib w) = 100000000 \<and>
   lamportsOf (createAccountIx lib w) =
     lamportsOf (transferToStaticWalletIx lib w) + lamportsOf (closeAccountIx lib w) \<and>
   (publicKey (generate w) \<noteq> publicKey (payer w) \<and>
    publicKey (generate w) \<noteq> STATIC_PUBLICKEY w \<longrightarrow>
      sum_list (map (credited (publicKey (generate w))) (instructions (indexMessage lib w bh))) =
        200000000 \<and>
      sum_list (map (debited (publicKey (generate w))) (instructions (indexMessage lib w bh))) =
        200000000 \<and>
      netLamports (publicKey (generate w)) (instructions (indexMessage lib w bh)) = 0)"
  by (simp add: index_ix_defs indexMessage_def netLamports_def)

theorem index_lamports_balance_witness:
  "publicKey (generate calmWorld) \<noteq> publicKey (payer calmWorld) \<and>
   publicKey (generate calmWorld) \<noteq> STATIC_PUBLICKEY calmWorld \<and>
   sum_list (map (credited ''FRESH'') (instructions (indexMessage exampleSdk calmWorld ''BLOCKHASH''))) =
     200000000 \<and>
   sum_list (map (debited ''FRESH'') (instructions (indexMessage exampleSdk calmWorld ''BLOCKHASH''))) =
     200000000 \<and>
   netLamports ''FRESH'' (instructions (indexMessage exampleSdk calmWorld ''BLOCKHASH'')) = 0"
  using index_lamports_balance [where w = calmWorld and lib = exampleSdk and bh = "''BLOCKHASH''"]
  by (simp add: calmWorld_simps)

text \<open>
  Claim C10: in the NFT script, the name and symbol of every NFT creation requested are
  the name and symbol of the metadata object that was uploaded, namely \<open>Pepe Token\<close>
  and \<open>PP\<close>; and the URI of the creation is the one the upload returned.
\<close>

theorem nft_name_symbol_from_metadata:
  "Started (NftsUploadMetadata m) \<in> set (trace (createNFTsScript w)) \<and>
   Started (NftsCreate i) \<in> set (trace (createNFTsScript w)) \<longrightarrow>
     n_name i = j_name m \<and> n_symbol i = j_symbol m \<and>
     n_name i = ''Pepe Token'' \<and> n_symbol i = ''PP'' \<and>
     uploadMetadata w m = Inr (n_uri i)"
  by (rule createNFTsScript_cases [where w = w]) (auto simp add: createInput_def metadata_def)

theorem nft_name_symbol_from_metadata_witness:
  "Started (NftsUploadMetadata metadata) \<in> set (trace (createNFTsScript calmWorld)) \<and>
   Started (NftsCreate (createInput calmWorld ''https://arweave.net/pepe''))
     \<in> set (trace (createNFTsScript calmWorld)) \<and>
   n_name (createInput calmWorld ''https://arweave.net/pepe'') = j_name metadata \<and>
   n_symbol (createInput calmWorld ''https://arweave.net/pepe'') = j_symbol metadata \<and>
   n_name (createInput calmWorld ''https://arweave.net/pepe'') = ''Pepe Token'' \<and>
   n_symbol (createInput calmWorld ''https://arweave.net/pepe'') = ''PP''"
  using nft_name_symbol_from_metadata
    [where w = calmWorld and m = metadata
       and i = "createInput calmWorld ''https://arweave.net/pepe''"]
  by (simp add: createNFTs_calm createInput_def metadata_def)

end
